theory Spec2Isabelle
  imports Main
begin

section \<open>Ticket issuance and transfer (TicketsService)\<close>

text \<open>
  A shallow embedding of the two operations of \<^verbatim>\<open>TicketsService\<close>
  (\<^verbatim>\<open>tickets.service.ts\<close>): \<^verbatim>\<open>issueTicket\<close> and \<^verbatim>\<open>transferTicket\<close>.
  Exceptions are values of a sum type, the ticket table is explicit state, and every
  call to a collaborator is recorded in a log carried by the state, so that statements
  such as "the chain transaction is not fetched" are statements about that log.
\<close>

subsection \<open>Data model\<close>

text \<open>
  The three NestJS exceptions the service throws, each with its message. A fourth
  constructor stands for whatever else a collaborator (payment lookup, chain
  transaction fetch) may throw; the service never throws it itself.
\<close>

datatype error =
    BadRequestException string
  | ForbiddenException string
  | NotFoundException string
  | CollaboratorFailure string

text \<open>
  Modelled from the spec: the enum \<^verbatim>\<open>PaymentStatus\<close> is declared in
  \<^verbatim>\<open>payments/entities/payment.entity\<close>, which is not among the sources. The spec
  says the status is "one of a fixed set including CONFIRMED"; every other member is
  \<open>OtherStatus\<close> with its label.
\<close>

datatype PaymentStatus = CONFIRMED | OtherStatus string

text \<open>
  Modelled from the spec: the payment entity (identifier, status, optional transaction
  hash, event identifier, user identifier, currency code). Only the fields
  \<^verbatim>\<open>issueTicket\<close> reads are kept. The identifier field is written \<open>id'\<close>.
\<close>

record Payment =
  id' :: string
  status :: PaymentStatus
  transactionHash :: "string option"
  eventId :: string
  userId :: string
  currency :: string

text \<open>
  The memo of a fetched chain transaction, as \<^verbatim>\<open>typeof tx.memo\<close> sees it:
  a string, a value of another type, or nothing.
\<close>

datatype Memo = MemoString string | MemoOther | MemoAbsent

record Transaction =
  hash :: string
  memo :: Memo

text \<open>
  Modelled from the spec: the ticket entity (\<^verbatim>\<open>entities/ticket.entity\<close> is not
  among the sources). The identifier is assigned by the store when the ticket is first
  saved, so an entity that \<^verbatim>\<open>create\<close> has built and \<^verbatim>\<open>save\<close> has not yet
  seen has none.
\<close>

record TicketEntity =
  id' :: "string option"
  eventId :: string
  ownerId :: string
  assetCode :: string
  transactionHash :: string
  status :: string

text \<open>The collaborator calls the service makes, in the order it makes them.\<close>

datatype call =
    GetPaymentById string
  | FindOneByTransactionHash string
  | GetTransaction string
  | Create
  | Save
  | FindOneById string

record world =
  tickets :: "TicketEntity list"
  calls :: "call list"

subsection \<open>The ticket store\<close>

text \<open>
  Modelled from the spec: the TypeORM repository is a library object; the spec gives
  its contract as \<^verbatim>\<open>findOne(predicate) -> Ticket | absent\<close>,
  \<^verbatim>\<open>create(fields) -> unsaved Ticket\<close>, \<^verbatim>\<open>save(ticket) -> persisted Ticket\<close>.
  The table is the list of its rows in insertion order. The uniqueness constraint on
  the transaction hash is not built into \<open>save\<close>: the invariant theorem below shows
  that the service never attempts a write that would violate it.
\<close>

definition record_call :: "call \<Rightarrow> world \<Rightarrow> world" where
  "record_call c w = w\<lparr>calls := calls w @ [c]\<rparr>"

definition findOneByTransactionHash :: "string \<Rightarrow> world \<Rightarrow> TicketEntity option \<times> world" where
  "findOneByTransactionHash h w =
     (find (\<lambda>t. TicketEntity.transactionHash t = h) (tickets w),
      record_call (FindOneByTransactionHash h) w)"

definition findOneById :: "string \<Rightarrow> world \<Rightarrow> TicketEntity option \<times> world" where
  "findOneById i w =
     (find (\<lambda>t. TicketEntity.id' t = Some i) (tickets w),
      record_call (FindOneById i) w)"

definition create :: "string \<Rightarrow> string \<Rightarrow> string \<Rightarrow> string \<Rightarrow> string \<Rightarrow> world \<Rightarrow> TicketEntity \<times> world" where
  "create ev ow ac th st w =
     (\<lparr>TicketEntity.id' = None, eventId = ev, ownerId = ow, assetCode = ac,
       transactionHash = th, status = st\<rparr>,
      record_call Create w)"

text \<open>
  \<open>save\<close> inserts an entity without identifier under a new one, supplied by the
  store's generator \<open>newId\<close>; an entity with an identifier replaces the row that has
  it, or is inserted if there is none.
\<close>

definition save :: "(TicketEntity list \<Rightarrow> string) \<Rightarrow> TicketEntity \<Rightarrow> world \<Rightarrow> TicketEntity \<times> world" where
  "save newId t w =
     (case TicketEntity.id' t of
        None \<Rightarrow>
          (let t' = t\<lparr>TicketEntity.id' := Some (newId (tickets w))\<rparr>
           in (t', record_call Save (w\<lparr>tickets := tickets w @ [t']\<rparr>)))
      | Some i \<Rightarrow>
          if list_ex (\<lambda>r. TicketEntity.id' r = Some i) (tickets w)
          then (t, record_call Save
                  (w\<lparr>tickets := map (\<lambda>r. if TicketEntity.id' r = Some i then t else r) (tickets w)\<rparr>))
          else (t, record_call Save (w\<lparr>tickets := tickets w @ [t]\<rparr>)))"

subsection \<open>issueTicket\<close>

text \<open>
  JavaScript's \<^verbatim>\<open>!s\<close> on a value of type \<^verbatim>\<open>string | undefined\<close> (or
  \<^verbatim>\<open>string | null\<close>): true when the value is missing and when it is the empty string.
\<close>

definition falsy :: "string option \<Rightarrow> bool" where
  "falsy v = (case v of None \<Rightarrow> True | Some s \<Rightarrow> s = [])"

definition mismatch_message :: "string \<Rightarrow> string \<Rightarrow> string" where
  "mismatch_message pid m =
     ''Transaction memo does not match paymentId. Expected '' @ [CHR 0x22] @ pid @
     [CHR 0x22] @ '', got '' @ [CHR 0x22] @ m @ [CHR 0x22] @ ''.''"

definition issueTicket ::
  "(TicketEntity list \<Rightarrow> string) \<Rightarrow> (string \<Rightarrow> error + Payment) \<Rightarrow>
   (string \<Rightarrow> error + Transaction) \<Rightarrow> string \<Rightarrow> world \<Rightarrow> (error + TicketEntity) \<times> world" where
  "issueTicket newId getPaymentById getTransaction paymentId w0 =
     (let w1 = record_call (GetPaymentById paymentId) w0 in
      case getPaymentById paymentId of
        Inl e \<Rightarrow> (Inl e, w1)
      | Inr payment \<Rightarrow>
          if Payment.status payment \<noteq> CONFIRMED
          then (Inl (BadRequestException ''Payment not confirmed''), w1)
          else if falsy (Payment.transactionHash payment)
          then (Inl (BadRequestException ''Payment has no transaction hash''), w1)
          else
            (let h = the (Payment.transactionHash payment) in
             case findOneByTransactionHash h w1 of
               (Some existing, w2) \<Rightarrow> (Inr existing, w2)
             | (None, w2) \<Rightarrow>
                 (let w3 = record_call (GetTransaction h) w2 in
                  case getTransaction h of
                    Inl e \<Rightarrow> (Inl e, w3)
                  | Inr tx \<Rightarrow>
                      (let memoValue = (case memo tx of MemoString s \<Rightarrow> Some s | _ \<Rightarrow> None) in
                       if falsy memoValue
                       then (Inl (BadRequestException
                               ''Transaction is missing memo. Cannot verify payment reference.''), w3)
                       else if the memoValue \<noteq> Payment.id' payment
                       then (Inl (BadRequestException
                               (mismatch_message (Payment.id' payment) (the memoValue))), w3)
                       else
                         (case create (Payment.eventId payment) (Payment.userId payment)
                                 (Payment.currency payment) h ''valid'' w3 of
                            (ticket, w4) \<Rightarrow>
                              (case save newId ticket w4 of
                                 (saved, w5) \<Rightarrow> (Inr saved, w5)))))))"

subsection \<open>transferTicket\<close>

definition transferTicket ::
  "(TicketEntity list \<Rightarrow> string) \<Rightarrow> string \<Rightarrow> string \<Rightarrow> string \<Rightarrow> world \<Rightarrow>
   (error + TicketEntity) \<times> world" where
  "transferTicket newId ticketId callerOwnerId newOwnerId w0 =
     (case findOneById ticketId w0 of
        (None, w1) \<Rightarrow> (Inl (NotFoundException ''Ticket not found''), w1)
      | (Some ticket, w1) \<Rightarrow>
          if ownerId ticket \<noteq> callerOwnerId
          then (Inl (ForbiddenException ''Not ticket owner''), w1)
          else if TicketEntity.status ticket \<noteq> ''valid''
          then (Inl (BadRequestException ''Ticket not transferable''), w1)
          else
            (case save newId (ticket\<lparr>ownerId := newOwnerId\<rparr>) w1 of
               (saved, w2) \<Rightarrow> (Inr saved, w2)))"

subsection \<open>Observations on the state\<close>

text \<open>The calls a run appends to the log: those of the final state beyond the initial one's.\<close>

definition new_calls :: "world \<Rightarrow> world \<Rightarrow> call list" where
  "new_calls w w' = drop (length (calls w)) (calls w')"

text \<open>The two store invariants: the primary key, and the unique transaction hash.\<close>

definition id_unique :: "TicketEntity list \<Rightarrow> bool" where
  "id_unique rows = distinct (map TicketEntity.id' rows)"

definition hash_unique :: "TicketEntity list \<Rightarrow> bool" where
  "hash_unique rows = distinct (map TicketEntity.transactionHash rows)"

subsection \<open>Example inputs\<close>

text \<open>
  The scenario of the specification: a confirmed payment \<open>p1\<close> settled by the chain
  transaction \<open>tx1\<close>, whose memo is the payment's identifier.
\<close>

definition payment_p1 :: Payment where
  "payment_p1 =
     \<lparr>Payment.id' = ''p1'', status = CONFIRMED, transactionHash = Some ''tx1'',
      eventId = ''e1'', userId = ''u1'', currency = ''USDC''\<rparr>"

definition transaction_tx1 :: Transaction where
  "transaction_tx1 = \<lparr>hash = ''tx1'', memo = MemoString ''p1''\<rparr>"

definition ticket_t1 :: TicketEntity where
  "ticket_t1 =
     \<lparr>TicketEntity.id' = Some ''t1'', eventId = ''e1'', ownerId = ''u1'',
      assetCode = ''USDC'', transactionHash = ''tx1'', status = ''valid''\<rparr>"

definition empty_world :: world where
  "empty_world = \<lparr>tickets = [], calls = []\<rparr>"

definition world_t1 :: world where
  "world_t1 = \<lparr>tickets = [ticket_t1], calls = []\<rparr>"

text \<open>A payment whose identifier is the empty string, and a transaction with an empty text memo.\<close>

definition payment_empty_id :: Payment where
  "payment_empty_id =
     \<lparr>Payment.id' = [], status = CONFIRMED, transactionHash = Some ''tx1'',
      eventId = ''e1'', userId = ''u1'', currency = ''USDC''\<rparr>"

definition transaction_empty_memo :: Transaction where
  "transaction_empty_memo = \<lparr>hash = ''tx1'', memo = MemoString []\<rparr>"

text \<open>The payment \<open>p1\<close> after its status has left \<open>CONFIRMED\<close>.\<close>

definition payment_refunded :: Payment where
  "payment_refunded =
     \<lparr>Payment.id' = ''p1'', status = OtherStatus ''REFUNDED'', transactionHash = Some ''tx1'',
      eventId = ''e1'', userId = ''u1'', currency = ''USDC''\<rparr>"

text \<open>A second ticket, issued for another transaction.\<close>

definition ticket_t2 :: TicketEntity where
  "ticket_t2 =
     \<lparr>TicketEntity.id' = Some ''t2'', eventId = ''e1'', ownerId = ''u2'',
      assetCode = ''USDC'', transactionHash = ''tx2'', status = ''valid''\<rparr>"

section \<open>The paths through issueTicket\<close>

lemma issueTicket_payment_lookup_fails:
  "getPaymentById paymentId = Inl e \<Longrightarrow>
   issueTicket newId getPaymentById getTransaction paymentId w =
     (Inl e, record_call (GetPaymentById paymentId) w)"
  by (simp add: issueTicket_def)

lemma issueTicket_not_confirmed:
  "getPaymentById paymentId = Inr p \<Longrightarrow> Payment.status p \<noteq> CONFIRMED \<Longrightarrow>
   issueTicket newId getPaymentById getTransaction paymentId w =
     (Inl (BadRequestException ''Payment not confirmed''), record_call (GetPaymentById paymentId) w)"
  by (simp add: issueTicket_def)

lemma issueTicket_no_hash:
  "getPaymentById paymentId = Inr p \<Longrightarrow> Payment.status p = CONFIRMED \<Longrightarrow>
   falsy (Payment.transactionHash p) \<Longrightarrow>
   issueTicket newId getPaymentById getTransaction paymentId w =
     (Inl (BadRequestException ''Payment has no transaction hash''),
      record_call (GetPaymentById paymentId) w)"
  by (simp add: issueTicket_def)

lemma issueTicket_existing:
  "getPaymentById paymentId = Inr p \<Longrightarrow> Payment.status p = CONFIRMED \<Longrightarrow>
   Payment.transactionHash p = Some h \<Longrightarrow> h \<noteq> [] \<Longrightarrow>
   find (\<lambda>t. TicketEntity.transactionHash t = h) (tickets w) = Some existing \<Longrightarrow>
   issueTicket newId getPaymentById getTransaction paymentId w =
     (Inr existing,
      w\<lparr>calls := calls w @ [GetPaymentById paymentId, FindOneByTransactionHash h]\<rparr>)"
  by (simp add: issueTicket_def falsy_def findOneByTransactionHash_def record_call_def)

lemma issueTicket_fetch_fails:
  "getPaymentById paymentId = Inr p \<Longrightarrow> Payment.status p = CONFIRMED \<Longrightarrow>
   Payment.transactionHash p = Some h \<Longrightarrow> h \<noteq> [] \<Longrightarrow>
   find (\<lambda>t. TicketEntity.transactionHash t = h) (tickets w) = None \<Longrightarrow>
   getTransaction h = Inl e \<Longrightarrow>
   issueTicket newId getPaymentById getTransaction paymentId w =
     (Inl e,
      w\<lparr>calls := calls w @ [GetPaymentById paymentId, FindOneByTransactionHash h, GetTransaction h]\<rparr>)"
  by (simp add: issueTicket_def falsy_def findOneByTransactionHash_def record_call_def)

lemma issueTicket_missing_memo:
  "getPaymentById paymentId = Inr p \<Longrightarrow> Payment.status p = CONFIRMED \<Longrightarrow>
   Payment.transactionHash p = Some h \<Longrightarrow> h \<noteq> [] \<Longrightarrow>
   find (\<lambda>t. TicketEntity.transactionHash t = h) (tickets w) = None \<Longrightarrow>
   getTransaction h = Inr tx \<Longrightarrow>
   memo tx = MemoOther \<or> memo tx = MemoAbsent \<or> memo tx = MemoString [] \<Longrightarrow>
   issueTicket newId getPaymentById getTransaction paymentId w =
     (Inl (BadRequestException ''Transaction is missing memo. Cannot verify payment reference.''),
      w\<lparr>calls := calls w @ [GetPaymentById paymentId, FindOneByTransactionHash h, GetTransaction h]\<rparr>)"
  by (auto simp add: issueTicket_def falsy_def findOneByTransactionHash_def record_call_def)

lemma issueTicket_memo_mismatch:
  "getPaymentById paymentId = Inr p \<Longrightarrow> Payment.status p = CONFIRMED \<Longrightarrow>
   Payment.transactionHash p = Some h \<Longrightarrow> h \<noteq> [] \<Longrightarrow>
   find (\<lambda>t. TicketEntity.transactionHash t = h) (tickets w) = None \<Longrightarrow>
   getTransaction h = Inr tx \<Longrightarrow>
   memo tx = MemoString m \<Longrightarrow> m \<noteq> [] \<Longrightarrow> m \<noteq> Payment.id' p \<Longrightarrow>
   issueTicket newId getPaymentById getTransaction paymentId w =
     (Inl (BadRequestException (mismatch_message (Payment.id' p) m)),
      w\<lparr>calls := calls w @ [GetPaymentById paymentId, FindOneByTransactionHash h, GetTransaction h]\<rparr>)"
  by (simp add: issueTicket_def falsy_def findOneByTransactionHash_def record_call_def)

lemma issueTicket_created:
  "getPaymentById paymentId = Inr p \<Longrightarrow> Payment.status p = CONFIRMED \<Longrightarrow>
   Payment.transactionHash p = Some h \<Longrightarrow> h \<noteq> [] \<Longrightarrow>
   find (\<lambda>t. TicketEntity.transactionHash t = h) (tickets w) = None \<Longrightarrow>
   getTransaction h = Inr tx \<Longrightarrow>
   memo tx = MemoString (Payment.id' p) \<Longrightarrow> Payment.id' p \<noteq> [] \<Longrightarrow>
   issueTicket newId getPaymentById getTransaction paymentId w =
     (let t = \<lparr>TicketEntity.id' = Some (newId (tickets w)), eventId = Payment.eventId p,
                ownerId = userId p, assetCode = currency p, transactionHash = h,
                status = ''valid''\<rparr>
      in (Inr t,
          \<lparr>tickets = tickets w @ [t],
           calls = calls w @ [GetPaymentById paymentId, FindOneByTransactionHash h,
                              GetTransaction h, Create, Save]\<rparr>))"
  by (simp add: issueTicket_def falsy_def findOneByTransactionHash_def record_call_def
      create_def save_def Let_def)

text \<open>
  Every call of \<open>issueTicket\<close> ends in one of three ways: with an error, the table as
  it was and neither \<^verbatim>\<open>create\<close> nor \<^verbatim>\<open>save\<close> called; with the ticket the
  lookup by hash found; or with a new last row.
\<close>

lemma issueTicket_outcome:
  assumes "issueTicket newId getPaymentById getTransaction paymentId w = (r, w')"
  shows "(\<exists>e. r = Inl e \<and> tickets w' = tickets w \<and> Create \<notin> set (new_calls w w') \<and>
              Save \<notin> set (new_calls w w')) \<or>
         (\<exists>p h t. getPaymentById paymentId = Inr p \<and> Payment.status p = CONFIRMED \<and>
              Payment.transactionHash p = Some h \<and> h \<noteq> [] \<and>
              find (\<lambda>t. TicketEntity.transactionHash t = h) (tickets w) = Some t \<and>
              r = Inr t \<and>
              w' = w\<lparr>calls := calls w @ [GetPaymentById paymentId, FindOneByTransactionHash h]\<rparr>) \<or>
         (\<exists>p h tx t. getPaymentById paymentId = Inr p \<and> Payment.status p = CONFIRMED \<and>
              Payment.transactionHash p = Some h \<and> h \<noteq> [] \<and>
              find (\<lambda>t. TicketEntity.transactionHash t = h) (tickets w) = None \<and>
              getTransaction h = Inr tx \<and> memo tx = MemoString (Payment.id' p) \<and>
              Payment.id' p \<noteq> [] \<and>
              t = \<lparr>TicketEntity.id' = Some (newId (tickets w)), eventId = Payment.eventId p,
                    ownerId = userId p, assetCode = currency p, transactionHash = h,
                    status = ''valid''\<rparr> \<and>
              r = Inr t \<and>
              w' = \<lparr>tickets = tickets w @ [t],
                    calls = calls w @ [GetPaymentById paymentId, FindOneByTransactionHash h,
                                       GetTransaction h, Create, Save]\<rparr>)"
proof (cases "getPaymentById paymentId")
  case (Inl e)
  with assms show ?thesis
    by (auto simp: issueTicket_payment_lookup_fails new_calls_def record_call_def)
next
  case (Inr p)
  show ?thesis
  proof (cases "Payment.status p = CONFIRMED")
    case False
    with Inr assms show ?thesis
      by (auto simp: issueTicket_not_confirmed new_calls_def record_call_def)
  next
    case True
    note confirmed = this
    show ?thesis
    proof (cases "falsy (Payment.transactionHash p)")
      case True
      with Inr confirmed assms show ?thesis
        by (auto simp: issueTicket_no_hash new_calls_def record_call_def)
    next
      case False
      then obtain h where h: "Payment.transactionHash p = Some h" "h \<noteq> []"
        by (auto simp: falsy_def split: option.splits)
      show ?thesis
      proof (cases "find (\<lambda>t. TicketEntity.transactionHash t = h) (tickets w)")
        case (Some existing)
        from assms Inr confirmed h Some have "r = Inr existing"
          "w' = w\<lparr>calls := calls w @ [GetPaymentById paymentId, FindOneByTransactionHash h]\<rparr>"
          by (simp_all add: issueTicket_existing)
        with Inr confirmed h Some show ?thesis by blast
      next
        case None
        note absent = this
        show ?thesis
        proof (cases "getTransaction h")
          case (Inl e)
          from assms Inr confirmed h absent Inl have "r = Inl e"
            "w' = w\<lparr>calls := calls w @ [GetPaymentById paymentId, FindOneByTransactionHash h,
                                         GetTransaction h]\<rparr>"
            by (simp_all add: issueTicket_fetch_fails)
          then show ?thesis by (simp add: new_calls_def)
        next
          case tx: (Inr tx)
          have missing: ?thesis
            if "memo tx = MemoOther \<or> memo tx = MemoAbsent \<or> memo tx = MemoString []"
          proof -
            from assms Inr confirmed h absent tx that
            have "r = Inl (BadRequestException
                    ''Transaction is missing memo. Cannot verify payment reference.'')"
              "w' = w\<lparr>calls := calls w @ [GetPaymentById paymentId, FindOneByTransactionHash h,
                                           GetTransaction h]\<rparr>"
              by (simp_all add: issueTicket_missing_memo)
            then show ?thesis by (simp add: new_calls_def)
          qed
          show ?thesis
          proof (cases "memo tx")
            case (MemoString m)
            show ?thesis
            proof (cases "m = []")
              case True
              with MemoString missing show ?thesis by simp
            next
              case False
              note nonempty = this
              show ?thesis
              proof (cases "m = Payment.id' p")
                case True
                with MemoString nonempty have m: "memo tx = MemoString (Payment.id' p)"
                  "Payment.id' p \<noteq> []" by simp_all
                let ?t = "\<lparr>TicketEntity.id' = Some (newId (tickets w)),
                    eventId = Payment.eventId p, ownerId = userId p, assetCode = currency p,
                    transactionHash = h, status = ''valid''\<rparr>"
                from assms Inr confirmed h absent tx m have "r = Inr ?t"
                  "w' = \<lparr>tickets = tickets w @ [?t],
                    calls = calls w @ [GetPaymentById paymentId, FindOneByTransactionHash h,
                                       GetTransaction h, Create, Save]\<rparr>"
                  by (simp_all add: issueTicket_created Let_def)
                with Inr confirmed h absent tx m show ?thesis by blast
              next
                case False
                from assms Inr confirmed h absent tx MemoString nonempty False
                have "r = Inl (BadRequestException (mismatch_message (Payment.id' p) m))"
                  "w' = w\<lparr>calls := calls w @ [GetPaymentById paymentId,
                          FindOneByTransactionHash h, GetTransaction h]\<rparr>"
                  by (simp_all add: issueTicket_memo_mismatch)
                then show ?thesis by (simp add: new_calls_def)
              qed
            qed
          next
            case MemoOther
            with missing show ?thesis by simp
          next
            case MemoAbsent
            with missing show ?thesis by simp
          qed
        qed
      qed
    qed
  qed
qed

lemma find_append_absent:
  "find P xs = None \<Longrightarrow> P x \<Longrightarrow> find P (xs @ [x]) = Some x"
  by (induction xs) (auto split: if_splits)

section \<open>The paths through transferTicket\<close>

lemma transferTicket_not_found:
  "find (\<lambda>t. TicketEntity.id' t = Some ticketId) (tickets w) = None \<Longrightarrow>
   transferTicket newId ticketId callerOwnerId newOwnerId w =
     (Inl (NotFoundException ''Ticket not found''),
      w\<lparr>calls := calls w @ [FindOneById ticketId]\<rparr>)"
  by (simp add: transferTicket_def findOneById_def record_call_def)

lemma transferTicket_forbidden:
  "find (\<lambda>t. TicketEntity.id' t = Some ticketId) (tickets w) = Some t \<Longrightarrow>
   ownerId t \<noteq> callerOwnerId \<Longrightarrow>
   transferTicket newId ticketId callerOwnerId newOwnerId w =
     (Inl (ForbiddenException ''Not ticket owner''),
      w\<lparr>calls := calls w @ [FindOneById ticketId]\<rparr>)"
  by (simp add: transferTicket_def findOneById_def record_call_def)

lemma transferTicket_not_transferable:
  "find (\<lambda>t. TicketEntity.id' t = Some ticketId) (tickets w) = Some t \<Longrightarrow>
   ownerId t = callerOwnerId \<Longrightarrow> TicketEntity.status t \<noteq> ''valid'' \<Longrightarrow>
   transferTicket newId ticketId callerOwnerId newOwnerId w =
     (Inl (BadRequestException ''Ticket not transferable''),
      w\<lparr>calls := calls w @ [FindOneById ticketId]\<rparr>)"
  by (simp add: transferTicket_def findOneById_def record_call_def)

lemma find_Some_list_ex: "find P xs = Some x \<Longrightarrow> list_ex P xs \<and> P x \<and> x \<in> set xs"
  by (induction xs) (auto split: if_splits)

lemma transferTicket_transferred:
  assumes "find (\<lambda>t. TicketEntity.id' t = Some ticketId) (tickets w) = Some t"
    and "ownerId t = callerOwnerId" and "TicketEntity.status t = ''valid''"
  shows "transferTicket newId ticketId callerOwnerId newOwnerId w =
     (Inr (t\<lparr>ownerId := newOwnerId\<rparr>),
      \<lparr>tickets = map (\<lambda>r. if TicketEntity.id' r = Some ticketId
                           then t\<lparr>ownerId := newOwnerId\<rparr> else r) (tickets w),
       calls = calls w @ [FindOneById ticketId, Save]\<rparr>)"
proof -
  from find_Some_list_ex [OF assms(1)]
  have "list_ex (\<lambda>t. TicketEntity.id' t = Some ticketId) (tickets w)"
    and "TicketEntity.id' t = Some ticketId"
    by simp_all
  with assms show ?thesis
    by (simp add: transferTicket_def findOneById_def record_call_def save_def)
qed

text \<open>
  Replacing the rows that carry an identifier by an entity with the same identifier:
  the first such row is the replacement afterwards, and under the primary key only the
  row that was found is touched.
\<close>

lemma find_replaced:
  "find (\<lambda>r. TicketEntity.id' r = Some i) rows = Some t \<Longrightarrow> TicketEntity.id' t' = Some i \<Longrightarrow>
   find (\<lambda>r. TicketEntity.id' r = Some i)
     (map (\<lambda>r. if TicketEntity.id' r = Some i then t' else r) rows) = Some t'"
  by (induction rows) (auto split: if_splits)

lemma id_unique_same_row:
  assumes "id_unique rows" and "t \<in> set rows" and "r \<in> set rows"
    and "TicketEntity.id' r = TicketEntity.id' t"
  shows "r = t"
  using assms by (auto simp: id_unique_def distinct_map inj_on_def)

lemma map_replaced:
  assumes "id_unique rows" and "t \<in> set rows" and "TicketEntity.id' t = Some i"
    and "f t' = f t"
  shows "map f (map (\<lambda>r. if TicketEntity.id' r = Some i then t' else r) rows) = map f rows"
proof -
  have "f (if TicketEntity.id' r = Some i then t' else r) = f r" if "r \<in> set rows" for r
    using id_unique_same_row [OF assms(1,2) that] assms(3,4) by auto
  then show ?thesis by simp
qed

section \<open>The store invariants\<close>

text \<open>\<open>hash_unique\<close> says that for any transaction hash at most one ticket exists.\<close>

lemma filter_hash_empty:
  "h \<notin> TicketEntity.transactionHash ` set rows \<Longrightarrow>
   filter (\<lambda>t. TicketEntity.transactionHash t = h) rows = []"
  by (induction rows) auto

lemma hash_unique_at_most_one:
  "hash_unique rows \<longleftrightarrow>
     (\<forall>h. length (filter (\<lambda>t. TicketEntity.transactionHash t = h) rows) \<le> 1)"
proof (induction rows)
  case Nil
  show ?case by (simp add: hash_unique_def)
next
  case (Cons r rows)
  show ?case
  proof
    assume u: "hash_unique (r # rows)"
    then have "hash_unique rows"
      and fresh: "TicketEntity.transactionHash r \<notin> TicketEntity.transactionHash ` set rows"
      by (simp_all add: hash_unique_def)
    with Cons have "\<forall>h. length (filter (\<lambda>t. TicketEntity.transactionHash t = h) rows) \<le> 1"
      by simp
    with filter_hash_empty [OF fresh]
    show "\<forall>h. length (filter (\<lambda>t. TicketEntity.transactionHash t = h) (r # rows)) \<le> 1"
      by simp
  next
    assume a: "\<forall>h. length (filter (\<lambda>t. TicketEntity.transactionHash t = h) (r # rows)) \<le> 1"
    have "length (filter (\<lambda>t. TicketEntity.transactionHash t = h) rows) \<le> 1" for h
      using a [rule_format, of h] by (simp split: if_splits)
    with Cons have "hash_unique rows" by simp
    moreover have "TicketEntity.transactionHash r \<notin> TicketEntity.transactionHash ` set rows"
    proof
      assume "TicketEntity.transactionHash r \<in> TicketEntity.transactionHash ` set rows"
      then obtain x where "x \<in> set rows"
        "TicketEntity.transactionHash x = TicketEntity.transactionHash r"
        by auto
      then have "filter (\<lambda>t. TicketEntity.transactionHash t = TicketEntity.transactionHash r) rows
          \<noteq> []"
        by (auto simp: filter_empty_conv)
      then have "0 < length (filter (\<lambda>t. TicketEntity.transactionHash t =
          TicketEntity.transactionHash r) rows)"
        by simp
      with a [rule_format, of "TicketEntity.transactionHash r"] show False by simp
    qed
    ultimately show "hash_unique (r # rows)" by (simp add: hash_unique_def)
  qed
qed

text \<open>What \<open>transferTicket\<close> does to the table: nothing, or one replacement by identifier.\<close>

lemma transferTicket_tickets:
  "tickets (snd (transferTicket newId ticketId callerOwnerId newOwnerId w)) = tickets w \<or>
   (\<exists>t. find (\<lambda>t. TicketEntity.id' t = Some ticketId) (tickets w) = Some t \<and>
        tickets (snd (transferTicket newId ticketId callerOwnerId newOwnerId w)) =
          map (\<lambda>r. if TicketEntity.id' r = Some ticketId then t\<lparr>ownerId := newOwnerId\<rparr> else r)
            (tickets w))"
proof (cases "find (\<lambda>t. TicketEntity.id' t = Some ticketId) (tickets w)")
  case None
  then show ?thesis by (simp add: transferTicket_not_found)
next
  case (Some t)
  show ?thesis
  proof (cases "ownerId t = callerOwnerId")
    case False
    with Some show ?thesis by (simp add: transferTicket_forbidden)
  next
    case True
    show ?thesis
    proof (cases "TicketEntity.status t = ''valid''")
      case False
      with Some True show ?thesis by (simp add: transferTicket_not_transferable)
    next
      case valid: True
      from Some show ?thesis by (simp add: transferTicket_transferred [OF Some True valid])
    qed
  qed
qed

section \<open>Issuing a new ticket\<close>

text \<open>
  C1, as stated, at the payment whose identifier is the empty string: the payment is
  confirmed, has the hash \<open>tx1\<close>, no ticket exists for \<open>tx1\<close>, and the chain
  transaction carries the plain-text memo \<open>''''\<close>, equal to the payment's identifier.
  \<open>issueTicket\<close> does not return a ticket: it fails with the missing-memo
  \<open>BadRequestException\<close> and the table stays empty.
\<close>

theorem issueTicket_empty_id_counterexample:
  "Payment.status payment_empty_id = CONFIRMED \<and>
   Payment.transactionHash payment_empty_id = Some ''tx1'' \<and>
   find (\<lambda>t. TicketEntity.transactionHash t = ''tx1'') (tickets empty_world) = None \<and>
   memo transaction_empty_memo = MemoString (Payment.id' payment_empty_id) \<and>
   issueTicket (\<lambda>rows. ''t1'') (\<lambda>i. Inr payment_empty_id) (\<lambda>h. Inr transaction_empty_memo)
       [] empty_world =
     (Inl (BadRequestException ''Transaction is missing memo. Cannot verify payment reference.''),
      \<lparr>tickets = [],
       calls = [GetPaymentById [], FindOneByTransactionHash ''tx1'', GetTransaction ''tx1'']\<rparr>)"
  by (simp add: payment_empty_id_def transaction_empty_memo_def empty_world_def issueTicket_def
      falsy_def findOneByTransactionHash_def record_call_def Let_def)

text \<open>
  C1, amended. For every payment that is \<open>CONFIRMED\<close>, has a non-empty transaction hash
  \<open>H\<close> for which the table holds no ticket, whose identifier is not the empty string,
  and whose chain transaction carries a plain-text memo equal to that identifier,
  \<open>issueTicket\<close> returns a ticket that was not in the table and is now its last row;
  the ticket's \<open>eventId\<close>, \<open>ownerId\<close> and \<open>assetCode\<close> are the payment's \<open>eventId\<close>,
  \<open>userId\<close> and \<open>currency\<close>, its \<open>transactionHash\<close> is \<open>H\<close> and its status is
  \<open>valid\<close>.
\<close>

theorem issueTicket_new_ticket:
  assumes "getPaymentById paymentId = Inr p"
    and "Payment.status p = CONFIRMED"
    and "Payment.transactionHash p = Some H" and "H \<noteq> []"
    and "find (\<lambda>t. TicketEntity.transactionHash t = H) (tickets w) = None"
    and "getTransaction H = Inr tx"
    and "memo tx = MemoString (Payment.id' p)" and "Payment.id' p \<noteq> []"
  shows "\<exists>t w'. issueTicket newId getPaymentById getTransaction paymentId w = (Inr t, w') \<and>
           tickets w' = tickets w @ [t] \<and> t \<notin> set (tickets w) \<and>
           TicketEntity.id' t = Some (newId (tickets w)) \<and>
           TicketEntity.eventId t = Payment.eventId p \<and>
           ownerId t = userId p \<and>
           assetCode t = currency p \<and>
           TicketEntity.transactionHash t = H \<and>
           TicketEntity.status t = ''valid''"
proof -
  let ?t = "\<lparr>TicketEntity.id' = Some (newId (tickets w)), eventId = Payment.eventId p,
              ownerId = userId p, assetCode = currency p, transactionHash = H,
              status = ''valid''\<rparr>"
  from assms(5) have "?t \<notin> set (tickets w)"
    by (auto simp: find_None_iff)
  moreover have "issueTicket newId getPaymentById getTransaction paymentId w =
      (Inr ?t, \<lparr>tickets = tickets w @ [?t],
                calls = calls w @ [GetPaymentById paymentId, FindOneByTransactionHash H,
                                   GetTransaction H, Create, Save]\<rparr>)"
    using assms by (simp add: issueTicket_created Let_def)
  ultimately show ?thesis by simp
qed

theorem issueTicket_new_ticket_witness:
  "issueTicket (\<lambda>rows. ''t1'') (\<lambda>i. Inr payment_p1) (\<lambda>h. Inr transaction_tx1) ''p1'' empty_world =
     (Inr ticket_t1,
      \<lparr>tickets = [ticket_t1],
       calls = [GetPaymentById ''p1'', FindOneByTransactionHash ''tx1'', GetTransaction ''tx1'',
                Create, Save]\<rparr>)"
proof -
  have "\<exists>t w'. issueTicket (\<lambda>rows. ''t1'') (\<lambda>i. Inr payment_p1) (\<lambda>h. Inr transaction_tx1) ''p1''
                  empty_world = (Inr t, w') \<and>
           tickets w' = tickets empty_world @ [t] \<and> t \<notin> set (tickets empty_world) \<and>
           TicketEntity.id' t = Some ''t1'' \<and>
           TicketEntity.eventId t = Payment.eventId payment_p1 \<and>
           ownerId t = userId payment_p1 \<and>
           assetCode t = currency payment_p1 \<and>
           TicketEntity.transactionHash t = ''tx1'' \<and>
           TicketEntity.status t = ''valid''"
    by (rule issueTicket_new_ticket [where p = payment_p1 and tx = transaction_tx1])
       (simp_all add: payment_p1_def transaction_tx1_def empty_world_def)
  then obtain t w' where
    r: "issueTicket (\<lambda>rows. ''t1'') (\<lambda>i. Inr payment_p1) (\<lambda>h. Inr transaction_tx1) ''p1''
          empty_world = (Inr t, w')"
    and t: "TicketEntity.id' t = Some ''t1''" "TicketEntity.eventId t = ''e1''"
      "ownerId t = ''u1''" "assetCode t = ''USDC''" "TicketEntity.transactionHash t = ''tx1''"
      "TicketEntity.status t = ''valid''"
    by (auto simp: payment_p1_def)
  from t have "t = ticket_t1" by (simp add: ticket_t1_def)
  with r show ?thesis
    by (simp add: issueTicket_def payment_p1_def transaction_tx1_def empty_world_def
        falsy_def findOneByTransactionHash_def record_call_def create_def save_def ticket_t1_def
        Let_def)
qed

section \<open>Idempotence\<close>

text \<open>
  C2, as stated, at a payment that has left \<open>CONFIRMED\<close>: the payment has the hash
  \<open>tx1\<close> and the table holds the ticket \<open>t1\<close> issued for \<open>tx1\<close>, yet \<open>issueTicket\<close>
  does not return \<open>t1\<close>: the status guard comes first and fails with
  \<open>BadRequestException\<close>.
\<close>

theorem issueTicket_not_confirmed_existing_counterexample:
  "Payment.transactionHash payment_refunded = Some ''tx1'' \<and>
   find (\<lambda>t. TicketEntity.transactionHash t = ''tx1'') (tickets world_t1) = Some ticket_t1 \<and>
   issueTicket (\<lambda>rows. ''t2'') (\<lambda>i. Inr payment_refunded) (\<lambda>h. Inr transaction_tx1)
       ''p1'' world_t1 =
     (Inl (BadRequestException ''Payment not confirmed''),
      \<lparr>tickets = [ticket_t1], calls = [GetPaymentById ''p1'']\<rparr>)"
  by (simp add: payment_refunded_def world_t1_def ticket_t1_def issueTicket_def record_call_def)

text \<open>
  C2, amended. For a payment that is \<open>CONFIRMED\<close> and has the non-empty transaction hash
  \<open>H\<close>: if the table holds a ticket with hash \<open>H\<close>, \<open>issueTicket\<close> returns it, with
  the table unchanged and only the payment lookup and the lookup by hash in the call log
  (no fetch of the chain transaction, no \<^verbatim>\<open>create\<close>, no \<^verbatim>\<open>save\<close>); hence
  whenever a call of \<open>issueTicket\<close> returns a ticket, a second call for the same
  \<open>paymentId\<close> returns the same ticket and leaves the table as the first call left it,
  whatever the transaction fetcher and the identifier generator would do; and a table
  with at most one ticket for \<open>H\<close> still has at most one after the call.
\<close>

theorem issueTicket_idempotent:
  assumes "getPaymentById paymentId = Inr p"
    and "Payment.status p = CONFIRMED"
    and "Payment.transactionHash p = Some H" and "H \<noteq> []"
  shows "(\<forall>existing. find (\<lambda>t. TicketEntity.transactionHash t = H) (tickets w) = Some existing \<longrightarrow>
            issueTicket newId getPaymentById getTransaction paymentId w =
              (Inr existing,
               w\<lparr>calls := calls w @ [GetPaymentById paymentId, FindOneByTransactionHash H]\<rparr>)) \<and>
         (\<forall>t w1. issueTicket newId getPaymentById getTransaction paymentId w = (Inr t, w1) \<longrightarrow>
            issueTicket newId' getPaymentById getTransaction' paymentId w1 =
              (Inr t,
               w1\<lparr>calls := calls w1 @ [GetPaymentById paymentId, FindOneByTransactionHash H]\<rparr>)) \<and>
         (length (filter (\<lambda>t. TicketEntity.transactionHash t = H) (tickets w)) \<le> 1 \<longrightarrow>
            length (filter (\<lambda>t. TicketEntity.transactionHash t = H)
              (tickets (snd (issueTicket newId getPaymentById getTransaction paymentId w)))) \<le> 1)"
proof (intro conjI allI impI)
  fix existing
  assume "find (\<lambda>t. TicketEntity.transactionHash t = H) (tickets w) = Some existing"
  with assms show "issueTicket newId getPaymentById getTransaction paymentId w =
      (Inr existing,
       w\<lparr>calls := calls w @ [GetPaymentById paymentId, FindOneByTransactionHash H]\<rparr>)"
    by (simp add: issueTicket_existing)
next
  fix t w1
  assume first: "issueTicket newId getPaymentById getTransaction paymentId w = (Inr t, w1)"
  have "find (\<lambda>t. TicketEntity.transactionHash t = H) (tickets w1) = Some t"
    using issueTicket_outcome [OF first] assms
    by (auto simp: find_append_absent)
  with assms show "issueTicket newId' getPaymentById getTransaction' paymentId w1 =
      (Inr t,
       w1\<lparr>calls := calls w1 @ [GetPaymentById paymentId, FindOneByTransactionHash H]\<rparr>)"
    by (simp add: issueTicket_existing)
next
  assume one: "length (filter (\<lambda>t. TicketEntity.transactionHash t = H) (tickets w)) \<le> 1"
  obtain r w' where res: "issueTicket newId getPaymentById getTransaction paymentId w = (r, w')"
    by (cases "issueTicket newId getPaymentById getTransaction paymentId w")
  have "length (filter (\<lambda>t. TicketEntity.transactionHash t = H) (tickets w')) \<le> 1"
    using issueTicket_outcome [OF res] assms one
    by (auto simp: find_None_iff filter_empty_conv[THEN iffD2])
  with res show "length (filter (\<lambda>t. TicketEntity.transactionHash t = H)
      (tickets (snd (issueTicket newId getPaymentById getTransaction paymentId w)))) \<le> 1"
    by simp
qed

theorem issueTicket_idempotent_witness:
  "issueTicket (\<lambda>rows. ''t1'') (\<lambda>i. Inr payment_p1) (\<lambda>h. Inr transaction_tx1) ''p1'' empty_world =
     (Inr ticket_t1,
      \<lparr>tickets = [ticket_t1],
       calls = [GetPaymentById ''p1'', FindOneByTransactionHash ''tx1'', GetTransaction ''tx1'',
                Create, Save]\<rparr>) \<and>
   issueTicket (\<lambda>rows. ''t2'') (\<lambda>i. Inr payment_p1) (\<lambda>h. Inl (CollaboratorFailure ''offline''))
       ''p1''
       \<lparr>tickets = [ticket_t1],
        calls = [GetPaymentById ''p1'', FindOneByTransactionHash ''tx1'', GetTransaction ''tx1'',
                 Create, Save]\<rparr> =
     (Inr ticket_t1,
      \<lparr>tickets = [ticket_t1],
       calls = [GetPaymentById ''p1'', FindOneByTransactionHash ''tx1'', GetTransaction ''tx1'',
                Create, Save, GetPaymentById ''p1'', FindOneByTransactionHash ''tx1'']\<rparr>)"
proof -
  let ?w1 = "\<lparr>tickets = [ticket_t1],
       calls = [GetPaymentById ''p1'', FindOneByTransactionHash ''tx1'', GetTransaction ''tx1'',
                Create, Save]\<rparr>"
  have first: "issueTicket (\<lambda>rows. ''t1'') (\<lambda>i. Inr payment_p1) (\<lambda>h. Inr transaction_tx1) ''p1''
      empty_world = (Inr ticket_t1, ?w1)"
    by (simp add: issueTicket_def payment_p1_def transaction_tx1_def empty_world_def
        falsy_def findOneByTransactionHash_def record_call_def create_def save_def ticket_t1_def
        Let_def)
  have hyps: "Payment.status payment_p1 = CONFIRMED"
    "Payment.transactionHash payment_p1 = Some ''tx1''" "''tx1'' \<noteq> []"
    by (simp_all add: payment_p1_def)
  have "issueTicket (\<lambda>rows. ''t2'') (\<lambda>i. Inr payment_p1)
      (\<lambda>h. Inl (CollaboratorFailure ''offline'')) ''p1'' ?w1 =
      (Inr ticket_t1,
       ?w1\<lparr>calls := calls ?w1 @ [GetPaymentById ''p1'', FindOneByTransactionHash ''tx1'']\<rparr>)"
    using issueTicket_idempotent
      [where getPaymentById = "\<lambda>i. Inr payment_p1" and paymentId = "''p1''" and H = "''tx1''"
         and w = empty_world and newId = "\<lambda>rows. ''t1''"
         and getTransaction = "\<lambda>h. Inr transaction_tx1" and newId' = "\<lambda>rows. ''t2''"
         and getTransaction' = "\<lambda>h. Inl (CollaboratorFailure ''offline'')",
       OF refl hyps] first
    by blast
  with first show ?thesis by simp
qed

section \<open>Atomicity of issuance\<close>

text \<open>
  C6, as stated, at a table that already holds the ticket for \<open>tx1\<close>: the call
  succeeds, returning that ticket, and persists nothing: the table is as before and
  neither \<^verbatim>\<open>create\<close> nor \<^verbatim>\<open>save\<close> is called.
\<close>

theorem issueTicket_success_without_save_counterexample:
  "tickets world_t1 = [ticket_t1] \<and>
   issueTicket (\<lambda>rows. ''t2'') (\<lambda>i. Inr payment_p1) (\<lambda>h. Inr transaction_tx1) ''p1'' world_t1 =
     (Inr ticket_t1,
      \<lparr>tickets = [ticket_t1],
       calls = [GetPaymentById ''p1'', FindOneByTransactionHash ''tx1'']\<rparr>)"
  by (simp add: issueTicket_def payment_p1_def world_t1_def ticket_t1_def falsy_def
      findOneByTransactionHash_def record_call_def Let_def)

text \<open>
  C6, amended. A call of \<open>issueTicket\<close> that returns a ticket for whose hash the table
  held no ticket persists exactly one ticket: the returned ticket is the one new row,
  and \<^verbatim>\<open>create\<close> and \<^verbatim>\<open>save\<close> are each called exactly once. A call that
  returns a ticket the table already held for that hash, and every call that fails
  (payment not found, not confirmed, missing hash, chain fetch failure, missing or
  mismatched memo), leaves the table unchanged and calls neither \<^verbatim>\<open>create\<close> nor
  \<^verbatim>\<open>save\<close>.
\<close>

theorem issueTicket_atomicity:
  assumes "issueTicket newId getPaymentById getTransaction paymentId w = (r, w')"
  shows "case r of
           Inl e \<Rightarrow>
             tickets w' = tickets w \<and> count_list (new_calls w w') Create = 0 \<and>
             count_list (new_calls w w') Save = 0
         | Inr t \<Rightarrow>
             if find (\<lambda>x. TicketEntity.transactionHash x = TicketEntity.transactionHash t)
                  (tickets w) = None
             then tickets w' = tickets w @ [t] \<and> count_list (new_calls w w') Create = 1 \<and>
                  count_list (new_calls w w') Save = 1
             else find (\<lambda>x. TicketEntity.transactionHash x = TicketEntity.transactionHash t)
                    (tickets w) = Some t \<and>
                  tickets w' = tickets w \<and> count_list (new_calls w w') Create = 0 \<and>
                  count_list (new_calls w w') Save = 0"
proof -
  from issueTicket_outcome [OF assms]
  consider
    (failed) e where "r = Inl e" "tickets w' = tickets w"
      "Create \<notin> set (new_calls w w')" "Save \<notin> set (new_calls w w')"
  | (existing) h t where "find (\<lambda>t. TicketEntity.transactionHash t = h) (tickets w) = Some t"
      "r = Inr t"
      "w' = w\<lparr>calls := calls w @ [GetPaymentById paymentId, FindOneByTransactionHash h]\<rparr>"
  | (created) h t where "find (\<lambda>t. TicketEntity.transactionHash t = h) (tickets w) = None"
      "TicketEntity.transactionHash t = h" "r = Inr t"
      "w' = \<lparr>tickets = tickets w @ [t],
             calls = calls w @ [GetPaymentById paymentId, FindOneByTransactionHash h,
                                GetTransaction h, Create, Save]\<rparr>"
    by fastforce
  then show ?thesis
  proof cases
    case failed
    then show ?thesis by (simp add: count_list_0_iff)
  next
    case existing
    from existing(1) have "TicketEntity.transactionHash t = h"
      by (auto simp: find_Some_iff)
    with existing show ?thesis by (simp add: new_calls_def)
  next
    case created
    then show ?thesis by (simp add: new_calls_def)
  qed
qed

theorem issueTicket_atomicity_witness:
  "issueTicket (\<lambda>rows. ''t1'') (\<lambda>i. Inr payment_p1) (\<lambda>h. Inr transaction_tx1) ''p1'' empty_world =
     (Inr ticket_t1,
      \<lparr>tickets = [ticket_t1],
       calls = [GetPaymentById ''p1'', FindOneByTransactionHash ''tx1'', GetTransaction ''tx1'',
                Create, Save]\<rparr>) \<and>
   find (\<lambda>x. TicketEntity.transactionHash x = TicketEntity.transactionHash ticket_t1)
     (tickets empty_world) = None \<and>
   count_list (new_calls empty_world
     \<lparr>tickets = [ticket_t1],
      calls = [GetPaymentById ''p1'', FindOneByTransactionHash ''tx1'', GetTransaction ''tx1'',
               Create, Save]\<rparr>) Create = 1 \<and>
   count_list (new_calls empty_world
     \<lparr>tickets = [ticket_t1],
      calls = [GetPaymentById ''p1'', FindOneByTransactionHash ''tx1'', GetTransaction ''tx1'',
               Create, Save]\<rparr>) Save = 1"
proof -
  let ?w1 = "\<lparr>tickets = [ticket_t1],
       calls = [GetPaymentById ''p1'', FindOneByTransactionHash ''tx1'', GetTransaction ''tx1'',
                Create, Save]\<rparr>"
  have first: "issueTicket (\<lambda>rows. ''t1'') (\<lambda>i. Inr payment_p1) (\<lambda>h. Inr transaction_tx1) ''p1''
      empty_world = (Inr ticket_t1, ?w1)"
    by (simp add: issueTicket_def payment_p1_def transaction_tx1_def empty_world_def
        falsy_def findOneByTransactionHash_def record_call_def create_def save_def ticket_t1_def
        Let_def)
  have absent: "find (\<lambda>x. TicketEntity.transactionHash x = TicketEntity.transactionHash ticket_t1)
     (tickets empty_world) = None"
    by (simp add: empty_world_def)
  from issueTicket_atomicity [OF first] absent
  have "count_list (new_calls empty_world ?w1) Create = 1 \<and>
        count_list (new_calls empty_world ?w1) Save = 1"
    by simp
  with first absent show ?thesis by simp
qed

section \<open>Memo validation\<close>

text \<open>
  C3. For every confirmed payment with a (non-empty) transaction hash and no existing
  ticket, once the chain transaction has been fetched: if its memo is not a string
  (another encoding, or absent) \<open>issueTicket\<close> fails with the missing-memo
  \<open>BadRequestException\<close>; if its memo is a string different from the payment's
  identifier, \<open>issueTicket\<close> fails with a \<open>BadRequestException\<close>; in both cases the
  table is unchanged; and whenever \<open>issueTicket\<close> returns a ticket or reaches
  \<^verbatim>\<open>create\<close>, the memo is a string equal to the payment's identifier.
\<close>

theorem issueTicket_memo_validation:
  assumes "getPaymentById paymentId = Inr p"
    and "Payment.status p = CONFIRMED"
    and "Payment.transactionHash p = Some H" and "H \<noteq> []"
    and "find (\<lambda>t. TicketEntity.transactionHash t = H) (tickets w) = None"
    and "getTransaction H = Inr tx"
  shows "((\<forall>m. memo tx \<noteq> MemoString m) \<longrightarrow>
            issueTicket newId getPaymentById getTransaction paymentId w =
              (Inl (BadRequestException
                 ''Transaction is missing memo. Cannot verify payment reference.''),
               w\<lparr>calls := calls w @ [GetPaymentById paymentId, FindOneByTransactionHash H,
                                      GetTransaction H]\<rparr>)) \<and>
         (\<forall>m. memo tx = MemoString m \<and> m \<noteq> Payment.id' p \<longrightarrow>
            (\<exists>msg. issueTicket newId getPaymentById getTransaction paymentId w =
               (Inl (BadRequestException msg),
                w\<lparr>calls := calls w @ [GetPaymentById paymentId, FindOneByTransactionHash H,
                                       GetTransaction H]\<rparr>))) \<and>
         ((\<exists>t. fst (issueTicket newId getPaymentById getTransaction paymentId w) = Inr t) \<longrightarrow>
            memo tx = MemoString (Payment.id' p)) \<and>
         (Create \<in> set (new_calls w (snd (issueTicket newId getPaymentById getTransaction paymentId w)))
            \<longrightarrow> memo tx = MemoString (Payment.id' p))"
proof (cases "memo tx")
  case (MemoString m)
  show ?thesis
  proof (cases "m = []")
    case True
    with MemoString assms show ?thesis
      by (simp add: issueTicket_missing_memo new_calls_def)
  next
    case False
    show ?thesis
    proof (cases "m = Payment.id' p")
      case True
      with MemoString have "memo tx = MemoString (Payment.id' p)" by simp
      then show ?thesis by simp
    next
      case False
      with MemoString \<open>m \<noteq> []\<close> assms show ?thesis
        by (simp add: issueTicket_memo_mismatch new_calls_def)
    qed
  qed
next
  case MemoOther
  with assms show ?thesis by (simp add: issueTicket_missing_memo new_calls_def)
next
  case MemoAbsent
  with assms show ?thesis by (simp add: issueTicket_missing_memo new_calls_def)
qed

theorem issueTicket_memo_validation_witness:
  "issueTicket (\<lambda>rows. ''t1'') (\<lambda>i. Inr payment_p1)
       (\<lambda>h. Inr (transaction_tx1\<lparr>memo := MemoOther\<rparr>)) ''p1'' empty_world =
     (Inl (BadRequestException ''Transaction is missing memo. Cannot verify payment reference.''),
      \<lparr>tickets = [],
       calls = [GetPaymentById ''p1'', FindOneByTransactionHash ''tx1'', GetTransaction ''tx1'']\<rparr>) \<and>
   (\<exists>msg. issueTicket (\<lambda>rows. ''t1'') (\<lambda>i. Inr payment_p1)
       (\<lambda>h. Inr (transaction_tx1\<lparr>memo := MemoString ''other''\<rparr>)) ''p1'' empty_world =
     (Inl (BadRequestException msg),
      \<lparr>tickets = [],
       calls = [GetPaymentById ''p1'', FindOneByTransactionHash ''tx1'', GetTransaction ''tx1'']\<rparr>)) \<and>
   fst (issueTicket (\<lambda>rows. ''t1'') (\<lambda>i. Inr payment_p1) (\<lambda>h. Inr transaction_tx1) ''p1''
          empty_world) = Inr ticket_t1 \<and>
   memo transaction_tx1 = MemoString (Payment.id' payment_p1)"
proof -
  have hyps: "Payment.status payment_p1 = CONFIRMED"
    "Payment.transactionHash payment_p1 = Some ''tx1''" "''tx1'' \<noteq> []"
    "find (\<lambda>t. TicketEntity.transactionHash t = ''tx1'') (tickets empty_world) = None"
    by (simp_all add: payment_p1_def empty_world_def)
  note v = issueTicket_memo_validation
    [where getPaymentById = "\<lambda>i. Inr payment_p1" and paymentId = "''p1''" and H = "''tx1''"
       and w = empty_world and newId = "\<lambda>rows. ''t1''", OF refl hyps]
  have 1: "issueTicket (\<lambda>rows. ''t1'') (\<lambda>i. Inr payment_p1)
       (\<lambda>h. Inr (transaction_tx1\<lparr>memo := MemoOther\<rparr>)) ''p1'' empty_world =
     (Inl (BadRequestException ''Transaction is missing memo. Cannot verify payment reference.''),
      \<lparr>tickets = [],
       calls = [GetPaymentById ''p1'', FindOneByTransactionHash ''tx1'', GetTransaction ''tx1'']\<rparr>)"
    using v [where getTransaction = "\<lambda>h. Inr (transaction_tx1\<lparr>memo := MemoOther\<rparr>)"
               and tx = "transaction_tx1\<lparr>memo := MemoOther\<rparr>"]
    by (simp add: empty_world_def)
  have 2: "\<exists>msg. issueTicket (\<lambda>rows. ''t1'') (\<lambda>i. Inr payment_p1)
       (\<lambda>h. Inr (transaction_tx1\<lparr>memo := MemoString ''other''\<rparr>)) ''p1'' empty_world =
     (Inl (BadRequestException msg),
      \<lparr>tickets = [],
       calls = [GetPaymentById ''p1'', FindOneByTransactionHash ''tx1'', GetTransaction ''tx1'']\<rparr>)"
    using v [where getTransaction = "\<lambda>h. Inr (transaction_tx1\<lparr>memo := MemoString ''other''\<rparr>)"
               and tx = "transaction_tx1\<lparr>memo := MemoString ''other''\<rparr>"]
    by (simp add: empty_world_def payment_p1_def)
  have 3: "fst (issueTicket (\<lambda>rows. ''t1'') (\<lambda>i. Inr payment_p1) (\<lambda>h. Inr transaction_tx1) ''p1''
          empty_world) = Inr ticket_t1"
    by (simp add: issueTicket_def payment_p1_def transaction_tx1_def empty_world_def
        falsy_def findOneByTransactionHash_def record_call_def create_def save_def ticket_t1_def
        Let_def)
  have 4: "memo transaction_tx1 = MemoString (Payment.id' payment_p1)"
    using v [where getTransaction = "\<lambda>h. Inr transaction_tx1" and tx = transaction_tx1]
    unfolding 3 by simp
  from 1 2 3 4 show ?thesis by simp
qed

section \<open>The empty memo\<close>

text \<open>
  C10. For a confirmed payment with a (non-empty) hash and no existing ticket, a fetched
  transaction whose memo is the empty string makes \<open>issueTicket\<close> fail with the
  missing-memo \<open>BadRequestException\<close>, whose message is not a mismatch message; and
  when the payment's identifier is the empty string, \<open>issueTicket\<close> fails with a
  \<open>BadRequestException\<close> whatever the memo is, leaving the table unchanged and never
  reaching \<^verbatim>\<open>create\<close> or \<^verbatim>\<open>save\<close>.
\<close>

theorem issueTicket_empty_memo:
  assumes "getPaymentById paymentId = Inr p"
    and "Payment.status p = CONFIRMED"
    and "Payment.transactionHash p = Some H" and "H \<noteq> []"
    and "find (\<lambda>t. TicketEntity.transactionHash t = H) (tickets w) = None"
    and "getTransaction H = Inr tx"
  shows "(memo tx = MemoString [] \<longrightarrow>
            issueTicket newId getPaymentById getTransaction paymentId w =
              (Inl (BadRequestException
                 ''Transaction is missing memo. Cannot verify payment reference.''),
               w\<lparr>calls := calls w @ [GetPaymentById paymentId, FindOneByTransactionHash H,
                                      GetTransaction H]\<rparr>)) \<and>
         (\<forall>a b. ''Transaction is missing memo. Cannot verify payment reference.'' \<noteq>
                  mismatch_message a b) \<and>
         (Payment.id' p = [] \<longrightarrow>
            (\<exists>msg. issueTicket newId getPaymentById getTransaction paymentId w =
               (Inl (BadRequestException msg),
                w\<lparr>calls := calls w @ [GetPaymentById paymentId, FindOneByTransactionHash H,
                                       GetTransaction H]\<rparr>)))"
proof -
  have "\<exists>msg. issueTicket newId getPaymentById getTransaction paymentId w =
               (Inl (BadRequestException msg),
                w\<lparr>calls := calls w @ [GetPaymentById paymentId, FindOneByTransactionHash H,
                                       GetTransaction H]\<rparr>)"
    if "Payment.id' p = []"
  proof (cases "memo tx = MemoString []")
    case True
    with assms show ?thesis by (simp add: issueTicket_missing_memo)
  next
    case False
    show ?thesis
    proof (cases "memo tx")
      case (MemoString m)
      with False that assms show ?thesis by (simp add: issueTicket_memo_mismatch)
    next
      case MemoOther
      with assms show ?thesis by (simp add: issueTicket_missing_memo)
    next
      case MemoAbsent
      with assms show ?thesis by (simp add: issueTicket_missing_memo)
    qed
  qed
  moreover have "\<forall>a b. ''Transaction is missing memo. Cannot verify payment reference.'' \<noteq>
                  mismatch_message a b"
    by (simp add: mismatch_message_def)
  ultimately show ?thesis using assms by (simp add: issueTicket_missing_memo)
qed

theorem issueTicket_empty_memo_witness:
  "issueTicket (\<lambda>rows. ''t1'') (\<lambda>i. Inr payment_p1) (\<lambda>h. Inr transaction_empty_memo)
       ''p1'' empty_world =
     (Inl (BadRequestException ''Transaction is missing memo. Cannot verify payment reference.''),
      \<lparr>tickets = [],
       calls = [GetPaymentById ''p1'', FindOneByTransactionHash ''tx1'', GetTransaction ''tx1'']\<rparr>) \<and>
   (\<exists>msg. issueTicket (\<lambda>rows. ''t1'') (\<lambda>i. Inr payment_empty_id)
       (\<lambda>h. Inr (transaction_tx1\<lparr>memo := MemoString ''p1''\<rparr>)) [] empty_world =
     (Inl (BadRequestException msg),
      \<lparr>tickets = [],
       calls = [GetPaymentById [], FindOneByTransactionHash ''tx1'', GetTransaction ''tx1'']\<rparr>))"
proof -
  have "issueTicket (\<lambda>rows. ''t1'') (\<lambda>i. Inr payment_p1) (\<lambda>h. Inr transaction_empty_memo)
       ''p1'' empty_world =
     (Inl (BadRequestException ''Transaction is missing memo. Cannot verify payment reference.''),
      \<lparr>tickets = [],
       calls = [GetPaymentById ''p1'', FindOneByTransactionHash ''tx1'', GetTransaction ''tx1'']\<rparr>)"
    using issueTicket_empty_memo
      [where getPaymentById = "\<lambda>i. Inr payment_p1" and paymentId = "''p1''" and p = payment_p1
         and H = "''tx1''" and w = empty_world and newId = "\<lambda>rows. ''t1''"
         and getTransaction = "\<lambda>h. Inr transaction_empty_memo" and tx = transaction_empty_memo]
    by (simp add: payment_p1_def empty_world_def transaction_empty_memo_def)
  moreover have "\<exists>msg. issueTicket (\<lambda>rows. ''t1'') (\<lambda>i. Inr payment_empty_id)
       (\<lambda>h. Inr (transaction_tx1\<lparr>memo := MemoString ''p1''\<rparr>)) [] empty_world =
     (Inl (BadRequestException msg),
      \<lparr>tickets = [],
       calls = [GetPaymentById [], FindOneByTransactionHash ''tx1'', GetTransaction ''tx1'']\<rparr>)"
    using issueTicket_empty_memo
      [where getPaymentById = "\<lambda>i. Inr payment_empty_id" and paymentId = "[]"
         and p = payment_empty_id and H = "''tx1''" and w = empty_world
         and newId = "\<lambda>rows. ''t1''"
         and getTransaction = "\<lambda>h. Inr (transaction_tx1\<lparr>memo := MemoString ''p1''\<rparr>)"
         and tx = "transaction_tx1\<lparr>memo := MemoString ''p1''\<rparr>"]
    by (simp add: payment_empty_id_def empty_world_def)
  ultimately show ?thesis by simp
qed

section \<open>At most one ticket per transaction hash\<close>

text \<open>
  C4. A table in which no two tickets share a transaction hash is still such a table
  after \<open>issueTicket\<close>, which changes the table only by appending one ticket for whose
  hash its lookup found none; and after \<open>transferTicket\<close>, which leaves the
  transaction hash of every row as it was. The primary key of the table (no two rows
  share an identifier), on which the second part rests, is preserved as well, given
  that the store's generator returns an identifier not in the table.
\<close>

theorem hash_unique_preserved:
  "(hash_unique (tickets w) \<longrightarrow>
      hash_unique (tickets (snd (issueTicket newId getPaymentById getTransaction paymentId w)))) \<and>
   (tickets (snd (issueTicket newId getPaymentById getTransaction paymentId w)) = tickets w \<or>
    (\<exists>t. tickets (snd (issueTicket newId getPaymentById getTransaction paymentId w)) =
            tickets w @ [t] \<and>
          find (\<lambda>x. TicketEntity.transactionHash x = TicketEntity.transactionHash t) (tickets w)
            = None)) \<and>
   (id_unique (tickets w) \<longrightarrow>
      map TicketEntity.transactionHash
        (tickets (snd (transferTicket newId ticketId callerOwnerId newOwnerId w))) =
      map TicketEntity.transactionHash (tickets w)) \<and>
   (id_unique (tickets w) \<and> hash_unique (tickets w) \<longrightarrow>
      hash_unique (tickets (snd (transferTicket newId ticketId callerOwnerId newOwnerId w)))) \<and>
   (id_unique (tickets w) \<and> Some (newId (tickets w)) \<notin> TicketEntity.id' ` set (tickets w) \<longrightarrow>
      id_unique (tickets (snd (issueTicket newId getPaymentById getTransaction paymentId w)))) \<and>
   (id_unique (tickets w) \<longrightarrow>
      id_unique (tickets (snd (transferTicket newId ticketId callerOwnerId newOwnerId w))))"
proof -
  obtain r w' where res: "issueTicket newId getPaymentById getTransaction paymentId w = (r, w')"
    by (cases "issueTicket newId getPaymentById getTransaction paymentId w")
  from issueTicket_outcome [OF res]
  have appended: "tickets w' = tickets w \<or>
    (\<exists>t. tickets w' = tickets w @ [t] \<and>
       TicketEntity.id' t = Some (newId (tickets w)) \<and>
       find (\<lambda>x. TicketEntity.transactionHash x = TicketEntity.transactionHash t) (tickets w)
         = None)"
    by fastforce
  have issue_hash: "hash_unique (tickets w')" if "hash_unique (tickets w)"
  proof -
    from appended consider "tickets w' = tickets w"
      | t where "tickets w' = tickets w @ [t]"
        "find (\<lambda>x. TicketEntity.transactionHash x = TicketEntity.transactionHash t) (tickets w)
           = None"
      by blast
    then show ?thesis
    proof cases
      case 1
      with that show ?thesis by simp
    next
      case 2
      from 2(2) have "TicketEntity.transactionHash t \<notin>
          TicketEntity.transactionHash ` set (tickets w)"
        by (auto simp: find_None_iff)
      with that 2(1) show ?thesis by (simp add: hash_unique_def)
    qed
  qed
  have issue_id: "id_unique (tickets w')"
    if "id_unique (tickets w)" "Some (newId (tickets w)) \<notin> TicketEntity.id' ` set (tickets w)"
    using appended that by (auto simp: id_unique_def)
  let ?w'' = "snd (transferTicket newId ticketId callerOwnerId newOwnerId w)"
  have transfer_map: "map f (tickets ?w'') = map f (tickets w)"
    if "id_unique (tickets w)" and f: "\<And>t. f (t\<lparr>ownerId := newOwnerId\<rparr>) = f t" for f :: "TicketEntity \<Rightarrow> 'b"
  proof -
    from transferTicket_tickets [of newId ticketId callerOwnerId newOwnerId w]
    consider "tickets ?w'' = tickets w"
      | t where "find (\<lambda>t. TicketEntity.id' t = Some ticketId) (tickets w) = Some t"
        "tickets ?w'' =
          map (\<lambda>r. if TicketEntity.id' r = Some ticketId then t\<lparr>ownerId := newOwnerId\<rparr> else r)
            (tickets w)"
      by blast
    then show ?thesis
    proof cases
      case 1
      then show ?thesis by simp
    next
      case 2
      from find_Some_list_ex [OF 2(1)]
      have "t \<in> set (tickets w)" "TicketEntity.id' t = Some ticketId" by simp_all
      from map_replaced [OF that(1) this, of f "t\<lparr>ownerId := newOwnerId\<rparr>"] f 2(2)
      show ?thesis by simp
    qed
  qed
  have transfer_hash: "map TicketEntity.transactionHash (tickets ?w'') =
      map TicketEntity.transactionHash (tickets w)" if "id_unique (tickets w)"
    using transfer_map [OF that, of TicketEntity.transactionHash] by simp
  have transfer_id: "map TicketEntity.id' (tickets ?w'') = map TicketEntity.id' (tickets w)"
    if "id_unique (tickets w)"
    using transfer_map [OF that, of TicketEntity.id'] by simp
  from appended issue_hash issue_id transfer_hash transfer_id res show ?thesis
    by (auto simp: hash_unique_def id_unique_def)
qed

theorem hash_unique_preserved_witness:
  "hash_unique [ticket_t2] \<and>
   tickets (snd (issueTicket (\<lambda>rows. ''t1'') (\<lambda>i. Inr payment_p1) (\<lambda>h. Inr transaction_tx1) ''p1''
                   \<lparr>tickets = [ticket_t2], calls = []\<rparr>)) = [ticket_t2, ticket_t1] \<and>
   hash_unique [ticket_t2, ticket_t1] \<and>
   id_unique [ticket_t2, ticket_t1] \<and>
   tickets (snd (transferTicket (\<lambda>rows. ''t3'') ''t1'' ''u1'' ''u2''
                   \<lparr>tickets = [ticket_t2, ticket_t1], calls = []\<rparr>)) =
     [ticket_t2, ticket_t1\<lparr>ownerId := ''u2''\<rparr>] \<and>
   hash_unique [ticket_t2, ticket_t1\<lparr>ownerId := ''u2''\<rparr>] \<and>
   id_unique [ticket_t2, ticket_t1\<lparr>ownerId := ''u2''\<rparr>]"
proof -
  let ?w = "\<lparr>tickets = [ticket_t2], calls = []\<rparr>"
  let ?w1 = "\<lparr>tickets = [ticket_t2, ticket_t1], calls = []\<rparr>"
  have issue: "tickets (snd (issueTicket (\<lambda>rows. ''t1'') (\<lambda>i. Inr payment_p1)
      (\<lambda>h. Inr transaction_tx1) ''p1'' ?w)) = [ticket_t2, ticket_t1]"
    by (simp add: issueTicket_def payment_p1_def transaction_tx1_def ticket_t2_def
        falsy_def findOneByTransactionHash_def record_call_def create_def save_def ticket_t1_def
        Let_def)
  have transfer: "tickets (snd (transferTicket (\<lambda>rows. ''t3'') ''t1'' ''u1'' ''u2'' ?w1)) =
      [ticket_t2, ticket_t1\<lparr>ownerId := ''u2''\<rparr>]"
    by (simp add: transferTicket_def findOneById_def record_call_def save_def ticket_t1_def
        ticket_t2_def)
  have start: "hash_unique (tickets ?w)" "id_unique (tickets ?w)"
    "Some ''t1'' \<notin> TicketEntity.id' ` set (tickets ?w)"
    by (simp_all add: hash_unique_def id_unique_def ticket_t2_def)
  from hash_unique_preserved
    [where w = ?w and newId = "\<lambda>rows. ''t1''" and getPaymentById = "\<lambda>i. Inr payment_p1"
       and getTransaction = "\<lambda>h. Inr transaction_tx1" and paymentId = "''p1''"] start
  have mid: "hash_unique [ticket_t2, ticket_t1]" "id_unique [ticket_t2, ticket_t1]"
    unfolding issue by simp_all
  from hash_unique_preserved
    [where w = ?w1 and newId = "\<lambda>rows. ''t3''" and ticketId = "''t1''"
       and callerOwnerId = "''u1''" and newOwnerId = "''u2''"] mid
  have "hash_unique [ticket_t2, ticket_t1\<lparr>ownerId := ''u2''\<rparr>]"
    "id_unique [ticket_t2, ticket_t1\<lparr>ownerId := ''u2''\<rparr>]"
    unfolding transfer by simp_all
  with start(1) issue mid transfer show ?thesis by simp
qed

section \<open>Precondition guards\<close>

text \<open>
  C5. When the payment lookup returns a payment whose status is not \<open>CONFIRMED\<close>,
  \<open>issueTicket\<close> fails with \<open>BadRequestException\<close> (whether or not the payment has a
  hash: the status is checked first); when it returns a confirmed payment whose
  transaction hash is missing or empty, \<open>issueTicket\<close> fails with
  \<open>BadRequestException\<close>. In both cases the ticket table is as before and the only
  collaborator call made is the payment lookup: neither the ticket store nor the chain
  transaction fetcher is consulted.
\<close>

theorem issueTicket_precondition_guards:
  assumes "getPaymentById paymentId = Inr p"
  shows "(Payment.status p \<noteq> CONFIRMED \<longrightarrow>
            issueTicket newId getPaymentById getTransaction paymentId w =
              (Inl (BadRequestException ''Payment not confirmed''),
               w\<lparr>calls := calls w @ [GetPaymentById paymentId]\<rparr>)) \<and>
         (Payment.status p = CONFIRMED \<and> falsy (Payment.transactionHash p) \<longrightarrow>
            issueTicket newId getPaymentById getTransaction paymentId w =
              (Inl (BadRequestException ''Payment has no transaction hash''),
               w\<lparr>calls := calls w @ [GetPaymentById paymentId]\<rparr>))"
  using assms by (simp add: issueTicket_def record_call_def)

theorem issueTicket_precondition_guards_witness:
  "issueTicket (\<lambda>rows. ''t1'') (\<lambda>i. Inr payment_refunded) (\<lambda>h. Inr transaction_tx1) ''p1'' world_t1 =
     (Inl (BadRequestException ''Payment not confirmed''),
      world_t1\<lparr>calls := calls world_t1 @ [GetPaymentById ''p1'']\<rparr>) \<and>
   issueTicket (\<lambda>rows. ''t1'')
       (\<lambda>i. Inr (payment_p1\<lparr>Payment.transactionHash := None\<rparr>)) (\<lambda>h. Inr transaction_tx1)
       ''p1'' world_t1 =
     (Inl (BadRequestException ''Payment has no transaction hash''),
      world_t1\<lparr>calls := calls world_t1 @ [GetPaymentById ''p1'']\<rparr>) \<and>
   issueTicket (\<lambda>rows. ''t1'')
       (\<lambda>i. Inr (payment_p1\<lparr>Payment.transactionHash := Some []\<rparr>)) (\<lambda>h. Inr transaction_tx1)
       ''p1'' world_t1 =
     (Inl (BadRequestException ''Payment has no transaction hash''),
      world_t1\<lparr>calls := calls world_t1 @ [GetPaymentById ''p1'']\<rparr>)"
  using issueTicket_precondition_guards
          [of "\<lambda>i. Inr payment_refunded" "''p1''" payment_refunded "\<lambda>rows. ''t1''"
              "\<lambda>h. Inr transaction_tx1" world_t1]
        issueTicket_precondition_guards
          [of "\<lambda>i. Inr (payment_p1\<lparr>Payment.transactionHash := None\<rparr>)" "''p1''"
              "payment_p1\<lparr>Payment.transactionHash := None\<rparr>" "\<lambda>rows. ''t1''"
              "\<lambda>h. Inr transaction_tx1" world_t1]
        issueTicket_precondition_guards
          [of "\<lambda>i. Inr (payment_p1\<lparr>Payment.transactionHash := Some []\<rparr>)" "''p1''"
              "payment_p1\<lparr>Payment.transactionHash := Some []\<rparr>" "\<lambda>rows. ''t1''"
              "\<lambda>h. Inr transaction_tx1" world_t1]
  by (simp add: payment_refunded_def payment_p1_def falsy_def)

section \<open>Transfer: the failures\<close>

text \<open>
  C7. \<open>transferTicket\<close> fails with \<open>NotFoundException\<close> when no ticket has the given
  identifier; otherwise with \<open>ForbiddenException\<close> when the ticket's owner is not the
  caller (whatever the ticket's status); otherwise with \<open>BadRequestException\<close> when the
  ticket's status is not \<open>valid\<close>. Each failure leaves the table, and so every
  ticket's owner, unchanged, and \<open>transferTicket\<close> raises no other error.
\<close>

theorem transferTicket_failures:
  "(find (\<lambda>t. TicketEntity.id' t = Some ticketId) (tickets w) = None \<longrightarrow>
      transferTicket newId ticketId callerOwnerId newOwnerId w =
        (Inl (NotFoundException ''Ticket not found''),
         w\<lparr>calls := calls w @ [FindOneById ticketId]\<rparr>)) \<and>
   (\<forall>t. find (\<lambda>t. TicketEntity.id' t = Some ticketId) (tickets w) = Some t \<and>
        ownerId t \<noteq> callerOwnerId \<longrightarrow>
      transferTicket newId ticketId callerOwnerId newOwnerId w =
        (Inl (ForbiddenException ''Not ticket owner''),
         w\<lparr>calls := calls w @ [FindOneById ticketId]\<rparr>)) \<and>
   (\<forall>t. find (\<lambda>t. TicketEntity.id' t = Some ticketId) (tickets w) = Some t \<and>
        ownerId t = callerOwnerId \<and> TicketEntity.status t \<noteq> ''valid'' \<longrightarrow>
      transferTicket newId ticketId callerOwnerId newOwnerId w =
        (Inl (BadRequestException ''Ticket not transferable''),
         w\<lparr>calls := calls w @ [FindOneById ticketId]\<rparr>)) \<and>
   (\<forall>e. fst (transferTicket newId ticketId callerOwnerId newOwnerId w) = Inl e \<longrightarrow>
      (e = NotFoundException ''Ticket not found'' \<or> e = ForbiddenException ''Not ticket owner'' \<or>
       e = BadRequestException ''Ticket not transferable'') \<and>
      tickets (snd (transferTicket newId ticketId callerOwnerId newOwnerId w)) = tickets w)"
proof (intro conjI allI impI)
  fix e
  assume e: "fst (transferTicket newId ticketId callerOwnerId newOwnerId w) = Inl e"
  show "e = NotFoundException ''Ticket not found'' \<or> e = ForbiddenException ''Not ticket owner'' \<or>
       e = BadRequestException ''Ticket not transferable''"
    using e
    by (auto simp: transferTicket_def findOneById_def save_def
        split: option.splits if_splits prod.splits)
  show "tickets (snd (transferTicket newId ticketId callerOwnerId newOwnerId w)) = tickets w"
    using e
    by (auto simp: transferTicket_def findOneById_def save_def record_call_def
        split: option.splits if_splits prod.splits)
qed (simp_all add: transferTicket_not_found transferTicket_forbidden
       transferTicket_not_transferable)

theorem transferTicket_failures_witness:
  "transferTicket (\<lambda>rows. ''t2'') ''t9'' ''u1'' ''u2'' world_t1 =
     (Inl (NotFoundException ''Ticket not found''),
      \<lparr>tickets = [ticket_t1], calls = [FindOneById ''t9'']\<rparr>) \<and>
   transferTicket (\<lambda>rows. ''t2'') ''t1'' ''u3'' ''u2''
       \<lparr>tickets = [ticket_t1\<lparr>status := ''used''\<rparr>], calls = []\<rparr> =
     (Inl (ForbiddenException ''Not ticket owner''),
      \<lparr>tickets = [ticket_t1\<lparr>status := ''used''\<rparr>], calls = [FindOneById ''t1'']\<rparr>) \<and>
   transferTicket (\<lambda>rows. ''t2'') ''t1'' ''u1'' ''u2''
       \<lparr>tickets = [ticket_t1\<lparr>status := ''used''\<rparr>], calls = []\<rparr> =
     (Inl (BadRequestException ''Ticket not transferable''),
      \<lparr>tickets = [ticket_t1\<lparr>status := ''used''\<rparr>], calls = [FindOneById ''t1'']\<rparr>)"
  using transferTicket_failures
          [where ticketId = "''t9''" and w = world_t1 and newId = "\<lambda>rows. ''t2''"
             and callerOwnerId = "''u1''" and newOwnerId = "''u2''"]
        transferTicket_failures
          [where ticketId = "''t1''"
             and w = "\<lparr>tickets = [ticket_t1\<lparr>status := ''used''\<rparr>], calls = []\<rparr>"
             and newId = "\<lambda>rows. ''t2''" and callerOwnerId = "''u3''" and newOwnerId = "''u2''"]
        transferTicket_failures
          [where ticketId = "''t1''"
             and w = "\<lparr>tickets = [ticket_t1\<lparr>status := ''used''\<rparr>], calls = []\<rparr>"
             and newId = "\<lambda>rows. ''t2''" and callerOwnerId = "''u1''" and newOwnerId = "''u2''"]
  by (simp add: world_t1_def ticket_t1_def)

section \<open>Transfer: the frame\<close>

text \<open>
  C8. For a ticket found under the given identifier, with status \<open>valid\<close> and owned by
  the caller, \<open>transferTicket\<close> returns the ticket with \<open>ownerId\<close> set to the new
  owner and persists it: the row with that identifier is now the returned ticket, the
  rows with other identifiers are as before, and \<^verbatim>\<open>save\<close> is called once. The
  ticket's status, identifier, \<open>eventId\<close>, \<open>assetCode\<close> and \<open>transactionHash\<close> are
  unchanged.
\<close>

theorem transferTicket_frame:
  assumes "find (\<lambda>t. TicketEntity.id' t = Some ticketId) (tickets w) = Some t"
    and "TicketEntity.status t = ''valid''" and "ownerId t = callerOwnerId"
  shows "\<exists>t' w'. transferTicket newId ticketId callerOwnerId newOwnerId w = (Inr t', w') \<and>
           ownerId t' = newOwnerId \<and>
           TicketEntity.status t' = TicketEntity.status t \<and>
           TicketEntity.id' t' = TicketEntity.id' t \<and>
           TicketEntity.eventId t' = TicketEntity.eventId t \<and>
           assetCode t' = assetCode t \<and>
           TicketEntity.transactionHash t' = TicketEntity.transactionHash t \<and>
           find (\<lambda>r. TicketEntity.id' r = Some ticketId) (tickets w') = Some t' \<and>
           tickets w' = map (\<lambda>r. if TicketEntity.id' r = Some ticketId then t' else r) (tickets w) \<and>
           calls w' = calls w @ [FindOneById ticketId, Save]"
proof -
  from find_Some_list_ex [OF assms(1)] have "TicketEntity.id' t = Some ticketId" by simp
  then have "find (\<lambda>r. TicketEntity.id' r = Some ticketId)
      (map (\<lambda>r. if TicketEntity.id' r = Some ticketId then t\<lparr>ownerId := newOwnerId\<rparr> else r)
         (tickets w)) = Some (t\<lparr>ownerId := newOwnerId\<rparr>)"
    using assms(1) by (simp add: find_replaced)
  then show ?thesis
    by (simp add: transferTicket_transferred [OF assms(1,3,2)])
qed

theorem transferTicket_frame_witness:
  "transferTicket (\<lambda>rows. ''t2'') ''t1'' ''u1'' ''u2'' world_t1 =
     (Inr (ticket_t1\<lparr>ownerId := ''u2''\<rparr>),
      \<lparr>tickets = [ticket_t1\<lparr>ownerId := ''u2''\<rparr>], calls = [FindOneById ''t1'', Save]\<rparr>)"
proof -
  have "\<exists>t' w'. transferTicket (\<lambda>rows. ''t2'') ''t1'' ''u1'' ''u2'' world_t1 = (Inr t', w') \<and>
           ownerId t' = ''u2'' \<and>
           TicketEntity.status t' = TicketEntity.status ticket_t1 \<and>
           TicketEntity.id' t' = TicketEntity.id' ticket_t1 \<and>
           TicketEntity.eventId t' = TicketEntity.eventId ticket_t1 \<and>
           assetCode t' = assetCode ticket_t1 \<and>
           TicketEntity.transactionHash t' = TicketEntity.transactionHash ticket_t1 \<and>
           find (\<lambda>r. TicketEntity.id' r = Some ''t1'') (tickets w') = Some t' \<and>
           tickets w' = map (\<lambda>r. if TicketEntity.id' r = Some ''t1'' then t' else r)
                          (tickets world_t1) \<and>
           calls w' = calls world_t1 @ [FindOneById ''t1'', Save]"
    by (rule transferTicket_frame) (simp_all add: world_t1_def ticket_t1_def)
  then obtain t' w' where
    r: "transferTicket (\<lambda>rows. ''t2'') ''t1'' ''u1'' ''u2'' world_t1 = (Inr t', w')"
    and t': "ownerId t' = ''u2''" "TicketEntity.status t' = TicketEntity.status ticket_t1"
      "TicketEntity.id' t' = TicketEntity.id' ticket_t1"
      "TicketEntity.eventId t' = TicketEntity.eventId ticket_t1"
      "assetCode t' = assetCode ticket_t1"
      "TicketEntity.transactionHash t' = TicketEntity.transactionHash ticket_t1"
    and w': "tickets w' = map (\<lambda>r. if TicketEntity.id' r = Some ''t1'' then t' else r)
                          (tickets world_t1)"
      "calls w' = calls world_t1 @ [FindOneById ''t1'', Save]"
    by blast
  from t' have "t' = ticket_t1\<lparr>ownerId := ''u2''\<rparr>" by simp
  moreover from w' have "w' = \<lparr>tickets = [t'], calls = [FindOneById ''t1'', Save]\<rparr>"
    by (simp add: world_t1_def ticket_t1_def)
  ultimately show ?thesis using r by simp
qed

section \<open>Transfer: any new owner\<close>

text \<open>
  C9. For a ticket found under the given identifier, with status \<open>valid\<close> and owner
  \<open>A\<close>, \<open>transferTicket\<close> called by \<open>A\<close> succeeds for every new owner \<open>N\<close>: it
  returns the ticket with \<open>ownerId = N\<close>, and that is the ticket the table then holds
  under the identifier. In particular for \<open>N = A\<close> it returns the ticket as it was
  (and, identifiers being unique, leaves the table as it was), and for the empty string
  it returns the ticket with an empty owner.
\<close>

theorem transferTicket_any_new_owner:
  assumes "find (\<lambda>t. TicketEntity.id' t = Some ticketId) (tickets w) = Some t"
    and "TicketEntity.status t = ''valid''" and "ownerId t = A"
  shows "(\<forall>N. \<exists>w'. transferTicket newId ticketId A N w = (Inr (t\<lparr>ownerId := N\<rparr>), w') \<and>
            find (\<lambda>r. TicketEntity.id' r = Some ticketId) (tickets w') = Some (t\<lparr>ownerId := N\<rparr>) \<and>
            ownerId (t\<lparr>ownerId := N\<rparr>) = N) \<and>
         fst (transferTicket newId ticketId A A w) = Inr t \<and>
         (id_unique (tickets w) \<longrightarrow>
            tickets (snd (transferTicket newId ticketId A A w)) = tickets w) \<and>
         fst (transferTicket newId ticketId A [] w) = Inr (t\<lparr>ownerId := []\<rparr>)"
proof -
  from find_Some_list_ex [OF assms(1)]
  have t: "TicketEntity.id' t = Some ticketId" "t \<in> set (tickets w)" by simp_all
  have any: "\<exists>w'. transferTicket newId ticketId A N w = (Inr (t\<lparr>ownerId := N\<rparr>), w') \<and>
      find (\<lambda>r. TicketEntity.id' r = Some ticketId) (tickets w') = Some (t\<lparr>ownerId := N\<rparr>) \<and>
      ownerId (t\<lparr>ownerId := N\<rparr>) = N" for N
    using assms(1) t(1)
    by (simp add: transferTicket_transferred [OF assms(1,3,2)] find_replaced)
  have self: "t\<lparr>ownerId := A\<rparr> = t" using assms(3) by simp
  have tr: "transferTicket newId ticketId A A w =
      (Inr t,
       \<lparr>tickets = map (\<lambda>r. if TicketEntity.id' r = Some ticketId then t else r) (tickets w),
        calls = calls w @ [FindOneById ticketId, Save]\<rparr>)"
    using transferTicket_transferred [OF assms(1,3,2), of newId A] unfolding self .
  have same: "tickets (snd (transferTicket newId ticketId A A w)) = tickets w"
    if "id_unique (tickets w)"
    using map_replaced [OF that t(2,1), where f = "\<lambda>r. r" and t' = t]
    by (simp add: tr)
  have empty: "fst (transferTicket newId ticketId A [] w) = Inr (t\<lparr>ownerId := []\<rparr>)"
    by (simp add: transferTicket_transferred [OF assms(1,3,2)])
  from any same empty show ?thesis
    by (simp add: tr)
qed

theorem transferTicket_any_new_owner_witness:
  "fst (transferTicket (\<lambda>rows. ''t2'') ''t1'' ''u1'' ''u1'' world_t1) = Inr ticket_t1 \<and>
   tickets (snd (transferTicket (\<lambda>rows. ''t2'') ''t1'' ''u1'' ''u1'' world_t1)) = [ticket_t1] \<and>
   fst (transferTicket (\<lambda>rows. ''t2'') ''t1'' ''u1'' [] world_t1) =
     Inr (ticket_t1\<lparr>ownerId := []\<rparr>) \<and>
   (\<exists>w'. transferTicket (\<lambda>rows. ''t2'') ''t1'' ''u1'' ''u2'' world_t1 =
            (Inr (ticket_t1\<lparr>ownerId := ''u2''\<rparr>), w') \<and>
          find (\<lambda>r. TicketEntity.id' r = Some ''t1'') (tickets w') =
            Some (ticket_t1\<lparr>ownerId := ''u2''\<rparr>))"
proof -
  have hyps: "find (\<lambda>t. TicketEntity.id' t = Some ''t1'') (tickets world_t1) = Some ticket_t1"
    "TicketEntity.status ticket_t1 = ''valid''" "ownerId ticket_t1 = ''u1''"
    by (simp_all add: world_t1_def ticket_t1_def)
  have u: "id_unique (tickets world_t1)" by (simp add: id_unique_def world_t1_def)
  from transferTicket_any_new_owner [OF hyps, where newId = "\<lambda>rows. ''t2''"] u
  show ?thesis by (simp add: world_t1_def)
qed

end
